theory Spec2Isabelle
  imports Complex_Main "HOL-Library.Word" "HOL-Library.Sublist"
begin

section \<open>JavaScript values used by the Target Manager page\<close>

text \<open>
  A JavaScript string is a sequence of 16-bit code units. The literals of \<open>app.js\<close> are
  written through \<open>js\<close>; the ellipsis of the status messages (U+2026) is given by its code
  unit.
\<close>

type_synonym jsstring = "16 word list"

definition js :: "string \<Rightarrow> jsstring" where
  "js s = map of_char s"

text \<open>
  \<open>String.prototype.trim\<close> removes the code units of ECMAScript's WhiteSpace and
  LineTerminator productions from both ends.
\<close>

definition isWhiteSpace :: "16 word \<Rightarrow> bool" where
  "isWhiteSpace c \<longleftrightarrow>
     c \<in> {0x0009, 0x000A, 0x000B, 0x000C, 0x000D, 0x0020, 0x00A0, 0x1680,
          0x2028, 0x2029, 0x202F, 0x205F, 0x3000, 0xFEFF}
     \<or> (0x2000 \<le> c \<and> c \<le> 0x200A)"

definition trim :: "jsstring \<Rightarrow> jsstring" where
  "trim s = rev (dropWhile isWhiteSpace (rev (dropWhile isWhiteSpace s)))"

definition includesStr :: "jsstring \<Rightarrow> jsstring \<Rightarrow> bool" where
  \<comment> \<open>\<open>t.includes(sub)\<close>\<close>
  "includesStr t sub = sublist sub t"

definition startsWith :: "jsstring \<Rightarrow> jsstring \<Rightarrow> bool" where
  \<comment> \<open>\<open>t.startsWith(p)\<close>\<close>
  "startsWith t p = prefix p t"

text \<open>
  \<open>String(n)\<close> for a number holding a safe integer (magnitude at most \<open>2^53 - 1\<close>, the
  integers a JSON number carries exactly): the decimal numeral, with a minus sign below
  zero. Beyond that range JavaScript prints the shortest digits that read back as the same
  double, and exponent notation from \<open>10^21\<close> on, which this function does not follow;
  the ids and probe parameters of stored targets are taken to be safe integers.
\<close>

fun digitsOf :: "nat \<Rightarrow> jsstring" where
  "digitsOf n = (if n < 10 then [0x30 + of_nat n]
                 else digitsOf (n div 10) @ [0x30 + of_nat (n mod 10)])"

declare digitsOf.simps [simp del]

definition String_int :: "int \<Rightarrow> jsstring" where
  "String_int n = (if n < 0 then 0x2D # digitsOf (nat (- n)) else digitsOf (nat n))"

section \<open>Stored targets and their effective settings\<close>

text \<open>
  One element of the array returned by \<open>GET /api/targets\<close>. A field that is \<open>null\<close> or
  absent (both satisfy \<open>== null\<close>) is \<open>None\<close>. The fields \<open>id\<close>, \<open>type\<close>, \<open>name\<close>,
  \<open>target\<close> and \<open>enabled\<close> carry the prefix \<open>item_\<close>.
\<close>

record item =
  item_id :: int
  item_type :: jsstring
  item_name :: "jsstring option"
  item_target :: jsstring
  item_enabled :: "bool option"
  scrape_profile :: "jsstring option"
  icmp_count :: "int option"
  icmp_interval_ms :: "int option"
  icmp_timeout_ms :: "int option"
  icmp_packet_size :: "int option"
  icmp_df :: "bool option"

record icmp_cfg =
  count :: int
  interval_ms :: int
  timeout_ms :: int
  packet_size :: int
  df :: bool

definition ICMP_DEFAULTS :: icmp_cfg where
  "ICMP_DEFAULTS = \<lparr>count = 4, interval_ms = 1000, timeout_ms = 1000, packet_size = 56, df = False\<rparr>"

definition SCRAPE_PROFILES :: "jsstring list" where
  "SCRAPE_PROFILES = [js ''1s'', js ''5s'', js ''15s'', js ''60s'']"

definition DEFAULT_SCRAPE_PROFILE :: jsstring where
  "DEFAULT_SCRAPE_PROFILE = js ''15s''"

definition effectiveScrapeProfile :: "item \<Rightarrow> jsstring" where
  "effectiveScrapeProfile it =
     (let raw = (case scrape_profile it of None \<Rightarrow> [] | Some v \<Rightarrow> v);
          p = trim raw
      in if p \<in> set SCRAPE_PROFILES then p else DEFAULT_SCRAPE_PROFILE)"

definition effectiveIcmp :: "item \<Rightarrow> icmp_cfg" where
  "effectiveIcmp it =
     \<lparr>count = (case icmp_count it of None \<Rightarrow> count ICMP_DEFAULTS | Some v \<Rightarrow> v),
      interval_ms = (case icmp_interval_ms it of None \<Rightarrow> interval_ms ICMP_DEFAULTS | Some v \<Rightarrow> v),
      timeout_ms = (case icmp_timeout_ms it of None \<Rightarrow> timeout_ms ICMP_DEFAULTS | Some v \<Rightarrow> v),
      packet_size = (case icmp_packet_size it of None \<Rightarrow> packet_size ICMP_DEFAULTS | Some v \<Rightarrow> v),
      df = (case icmp_df it of None \<Rightarrow> df ICMP_DEFAULTS | Some v \<Rightarrow> v)\<rparr>"

definition Boolean_opt :: "bool option \<Rightarrow> bool" where
  \<comment> \<open>\<open>Boolean(x)\<close> of a boolean, \<open>null\<close> or \<open>undefined\<close>\<close>
  "Boolean_opt x = (case x of None \<Rightarrow> False | Some b \<Rightarrow> b)"

definition orEmpty :: "jsstring option \<Rightarrow> jsstring" where
  \<comment> \<open>\<open>x || ""\<close> of a string, \<open>null\<close> or \<open>undefined\<close>\<close>
  "orEmpty x = (case x of None \<Rightarrow> [] | Some v \<Rightarrow> v)"

section \<open>The page: form, table and handlers\<close>

text \<open>
  \<open>looksLikeIpv6\<close> is the expression of that name in \<open>updateIcmpDfAvailability\<close>, over the
  trimmed target \<open>t\<close>.
\<close>

definition looksLikeIpv6 :: "jsstring \<Rightarrow> bool" where
  "looksLikeIpv6 t \<longleftrightarrow>
     includesStr t (js '':'') \<or> (startsWith t (js ''['') \<and> includesStr t (js '']''))"

text \<open>
  One rendered table row: the item its closures hold, the state of its checkbox and the
  text of its cells.
\<close>

record row =
  row_item :: item
  enabledChecked :: bool
  nameText :: jsstring
  targetText :: jsstring
  scrapeText :: jsstring
  icmpText :: jsstring

text \<open>
  The mutable state of the page: the two module variables and the properties of the DOM
  elements that the script reads or writes. An empty \<open>tbody\<close> stands for the single
  placeholder row "No targets yet.". The \<open>active\<close> class of the tabs is a function of
  \<open>currentType\<close> and is not stored.
\<close>

record ui =
  currentType :: jsstring
  editId :: "int option"
  statusText :: jsstring
  statusError :: bool
  sdLinkHref :: jsstring
  hintText :: jsstring
  icmpConfigHidden :: bool
  nameValue :: jsstring
  targetValue :: jsstring
  scrapeProfileValue :: jsstring
  icmpCountValue :: jsstring
  icmpIntervalValue :: jsstring
  icmpTimeoutValue :: jsstring
  icmpPacketSizeValue :: jsstring
  icmpDfChecked :: bool
  icmpDfDisabled :: bool
  submitText :: jsstring
  cancelEditHidden :: bool
  tbody :: "row list"

definition setStatus :: "jsstring \<Rightarrow> jsstring \<Rightarrow> ui \<Rightarrow> ui" where
  "setStatus message kind s = s\<lparr>statusText := message, statusError := (kind = js ''error'')\<rparr>"

definition hintFor :: "jsstring \<Rightarrow> jsstring" where
  "hintFor type =
     (if type = js ''http'' then
        js ''HTTP: example.com, https://example.com/path (scheme defaults to https).''
      else if type = js ''tcp'' then
        js ''TCP: host:port (port defaults to 443). IPv6: [2001:db8::1]:443''
      else if type = js ''dns'' then
        js ''DNS: resolver:53 (port defaults to 53). Example: 1.1.1.1:53''
      else if type = js ''icmp'' then
        js ''ICMP: hostname or IP (no port). Configure count/interval/timeout/size/DF for loss+jitter.''
      else [])"

definition updateIcmpDfAvailability :: "ui \<Rightarrow> ui" where
  "updateIcmpDfAvailability s =
     (if currentType s \<noteq> js ''icmp'' then s
      else
        let t = trim (targetValue s);
            l = looksLikeIpv6 t;
            s1 = s\<lparr>icmpDfDisabled := l\<rparr>
        in if l then s1\<lparr>icmpDfChecked := False\<rparr> else s1)"

definition renderRow :: "item \<Rightarrow> row" where
  "renderRow it =
     \<lparr>row_item = it,
      enabledChecked = Boolean_opt (item_enabled it),
      nameText = orEmpty (item_name it),
      targetText = item_target it,
      scrapeText = effectiveScrapeProfile it,
      icmpText =
        (if item_type it = js ''icmp'' then
           let cfg = effectiveIcmp it
           in js ''count='' @ String_int (count cfg)
              @ js '' interval='' @ String_int (interval_ms cfg)
              @ js ''ms timeout='' @ String_int (timeout_ms cfg)
              @ js ''ms size='' @ String_int (packet_size cfg)
              @ js '' df='' @ (if df cfg then js ''on'' else js ''off'')
         else [])\<rparr>"

definition renderRows :: "item list \<Rightarrow> row list" where
  "renderRows items = map renderRow items"

text \<open>
  The outcome of one call of \<open>api\<close>: the message of the \<open>Error\<close> it threw, or its payload.
  A handler takes the outcomes of the calls it awaits as arguments and runs to its end.
\<close>

type_synonym 'a outcome = "jsstring + 'a"

definition refresh :: "item list outcome \<Rightarrow> ui \<Rightarrow> jsstring + ui" where
  "refresh r s = (case r of Inl e \<Rightarrow> Inl e | Inr items \<Rightarrow> Inr (s\<lparr>tbody := renderRows items\<rparr>))"

definition resetIcmpInputs :: "ui \<Rightarrow> ui" where
  \<comment> \<open>the five assignments from \<open>ICMP_DEFAULTS\<close> shared by \<open>setType\<close> and the cancel handler\<close>
  "resetIcmpInputs s =
     s\<lparr>icmpCountValue := String_int (count ICMP_DEFAULTS),
       icmpIntervalValue := String_int (interval_ms ICMP_DEFAULTS),
       icmpTimeoutValue := String_int (timeout_ms ICMP_DEFAULTS),
       icmpPacketSizeValue := String_int (packet_size ICMP_DEFAULTS),
       icmpDfChecked := df ICMP_DEFAULTS\<rparr>"

definition setType :: "jsstring \<Rightarrow> item list outcome \<Rightarrow> ui \<Rightarrow> ui" where
  "setType type r s =
     (let s1 = s\<lparr>currentType := type, sdLinkHref := js ''/sd/'' @ type,
                  hintText := hintFor type, icmpConfigHidden := (type \<noteq> js ''icmp'')\<rparr>;
          s2 = setStatus [] (js ''info'') s1;
          s3 = s2\<lparr>editId := None, submitText := js ''Add'', cancelEditHidden := True,
                   nameValue := [], targetValue := [],
                   scrapeProfileValue := DEFAULT_SCRAPE_PROFILE\<rparr>;
          s4 = updateIcmpDfAvailability (resetIcmpInputs s3)
      in case refresh r s4 of Inl e \<Rightarrow> setStatus e (js ''error'') s4 | Inr s5 \<Rightarrow> s5)"

definition editClick :: "item \<Rightarrow> ui \<Rightarrow> ui" where
  "editClick it s =
     (let s1 = s\<lparr>editId := Some (item_id it), submitText := js ''Save'',
                  cancelEditHidden := False, nameValue := orEmpty (item_name it),
                  targetValue := item_target it,
                  scrapeProfileValue := effectiveScrapeProfile it\<rparr>;
          s2 = (if item_type it = js ''icmp'' then
                  let cfg = effectiveIcmp it
                  in s1\<lparr>icmpCountValue := String_int (count cfg),
                        icmpIntervalValue := String_int (interval_ms cfg),
                        icmpTimeoutValue := String_int (timeout_ms cfg),
                        icmpPacketSizeValue := String_int (packet_size cfg),
                        icmpDfChecked := df cfg\<rparr>
                else s1);
          s3 = updateIcmpDfAvailability s2
      in setStatus (js ''Editing target #'' @ String_int (item_id it)) (js ''info'') s3)"

definition cancelClick :: "ui \<Rightarrow> ui" where
  "cancelClick s =
     (let s1 = s\<lparr>editId := None, submitText := js ''Add'', cancelEditHidden := True,
                  nameValue := [], targetValue := [],
                  scrapeProfileValue := DEFAULT_SCRAPE_PROFILE\<rparr>
      in setStatus [] (js ''info'') (updateIcmpDfAvailability (resetIcmpInputs s1)))"

text \<open>
  The body the submit handler builds. \<open>Number\<close>, applied to the text of the four numeric
  inputs, is the parameter \<open>num\<close>. A field the handler does not set is \<open>None\<close>.
\<close>

record 'n body =
  body_name :: jsstring
  body_target :: jsstring
  body_scrape_profile :: jsstring
  body_icmp_count :: "'n option"
  body_icmp_interval_ms :: "'n option"
  body_icmp_timeout_ms :: "'n option"
  body_icmp_packet_size :: "'n option"
  body_icmp_df :: "bool option"

definition submitBody :: "(jsstring \<Rightarrow> 'n) \<Rightarrow> ui \<Rightarrow> 'n body" where
  "submitBody num s =
     (let icmp = (currentType s = js ''icmp'')
      in \<lparr>body_name = nameValue s,
          body_target = targetValue s,
          body_scrape_profile = scrapeProfileValue s,
          body_icmp_count = (if icmp then Some (num (icmpCountValue s)) else None),
          body_icmp_interval_ms = (if icmp then Some (num (icmpIntervalValue s)) else None),
          body_icmp_timeout_ms = (if icmp then Some (num (icmpTimeoutValue s)) else None),
          body_icmp_packet_size = (if icmp then Some (num (icmpPacketSizeValue s)) else None),
          body_icmp_df = (if icmp then Some (icmpDfChecked s) else None)\<rparr>)"

datatype http_method = GET | POST | PATCH | DELETE

text \<open>
  The request of the submit handler: method, path, the \<open>type\<close> field that only \<open>POST\<close>
  adds, and the body.
\<close>

definition submitRequest ::
  "(jsstring \<Rightarrow> 'n) \<Rightarrow> ui \<Rightarrow> http_method \<times> jsstring \<times> jsstring option \<times> 'n body" where
  "submitRequest num s =
     (case editId s of
        None \<Rightarrow> (POST, js ''/api/targets'', Some (currentType s), submitBody num s)
      | Some i \<Rightarrow> (PATCH, js ''/api/targets/'' @ String_int i, None, submitBody num s))"

definition ellipsis :: "16 word" where
  "ellipsis = 0x2026"

definition submitHandler :: "unit outcome \<Rightarrow> item list outcome \<Rightarrow> ui \<Rightarrow> ui" where
  "submitHandler ra rr s =
     (let s1 = (if editId s = None then setStatus (js ''Adding'' @ [ellipsis]) (js ''info'') s
                else setStatus (js ''Saving'' @ [ellipsis]) (js ''info'') s)
      in case ra of
           Inl e \<Rightarrow> setStatus e (js ''error'') s1
         | Inr _ \<Rightarrow>
             (let s2 = updateIcmpDfAvailability
                         (s1\<lparr>nameValue := [], targetValue := [], editId := None,
                             submitText := js ''Add'', cancelEditHidden := True\<rparr>)
              in (case refresh rr s2 of
                    Inl e \<Rightarrow> setStatus e (js ''error'') s2
                  | Inr s3 \<Rightarrow> setStatus (js ''Saved'') (js ''info'') s3)))"

definition refreshClick :: "item list outcome \<Rightarrow> ui \<Rightarrow> ui" where
  "refreshClick rr s = (case refresh rr s of Inl e \<Rightarrow> setStatus e (js ''error'') s | Inr s1 \<Rightarrow> s1)"

text \<open>
  The checkbox of row \<open>i\<close>. \<open>flipEnabled\<close> is \<open>checkbox.checked = !checkbox.checked\<close>; the
  browser does the same to the box before it fires \<open>change\<close>. The handler sends the state
  of the box it finds.
\<close>

definition flipEnabled :: "nat \<Rightarrow> ui \<Rightarrow> ui" where
  "flipEnabled i s =
     s\<lparr>tbody := (tbody s)[i := (tbody s ! i)\<lparr>enabledChecked := \<not> enabledChecked (tbody s ! i)\<rparr>]\<rparr>"

definition enabledPatchRequest :: "nat \<Rightarrow> ui \<Rightarrow> http_method \<times> jsstring \<times> bool" where
  "enabledPatchRequest i s =
     (PATCH, js ''/api/targets/'' @ String_int (item_id (row_item (tbody s ! i))),
      enabledChecked (tbody s ! i))"

definition enabledChangeHandler :: "nat \<Rightarrow> unit outcome \<Rightarrow> item list outcome \<Rightarrow> ui \<Rightarrow> ui" where
  "enabledChangeHandler i rp rr s =
     (let s1 = setStatus (js ''Saving'' @ [ellipsis]) (js ''info'') s
      in case rp of
           Inl e \<Rightarrow> setStatus e (js ''error'') (flipEnabled i s1)
         | Inr _ \<Rightarrow>
             (case refresh rr s1 of
                Inl e \<Rightarrow> setStatus e (js ''error'') (flipEnabled i s1)
              | Inr s2 \<Rightarrow> setStatus (js ''Saved'') (js ''info'') s2))"

definition deleteClick :: "bool \<Rightarrow> unit outcome \<Rightarrow> item list outcome \<Rightarrow> ui \<Rightarrow> ui" where
  "deleteClick confirmed rd rr s =
     (if \<not> confirmed then s
      else
        let s1 = setStatus (js ''Deleting'' @ [ellipsis]) (js ''info'') s
        in case rd of
             Inl e \<Rightarrow> setStatus e (js ''error'') s1
           | Inr _ \<Rightarrow>
               (case refresh rr s1 of
                  Inl e \<Rightarrow> setStatus e (js ''error'') s1
                | Inr s2 \<Rightarrow> setStatus (js ''Deleted'') (js ''info'') s2))"

text \<open>
  What can happen to the page. The first three are the user's own changes of a control
  (a disabled checkbox does not react to a click); the others fire a handler of the
  script, with the outcomes of the requests that handler awaits. A click on a row that is
  not rendered cannot occur and changes nothing.
\<close>

datatype field = Name | ScrapeProfile | IcmpCount | IcmpInterval | IcmpTimeout | IcmpPacketSize

datatype event =
    FieldInput field jsstring
  | DfClick
  | TargetInput jsstring
  | TabClick jsstring "item list outcome"
  | EditClick nat
  | CancelClick
  | Submit "unit outcome" "item list outcome"
  | RefreshClick "item list outcome"
  | EnabledClick nat "unit outcome" "item list outcome"
  | DeleteClick nat bool "unit outcome" "item list outcome"

fun setField :: "field \<Rightarrow> jsstring \<Rightarrow> ui \<Rightarrow> ui" where
  "setField Name v s = s\<lparr>nameValue := v\<rparr>"
| "setField ScrapeProfile v s = s\<lparr>scrapeProfileValue := v\<rparr>"
| "setField IcmpCount v s = s\<lparr>icmpCountValue := v\<rparr>"
| "setField IcmpInterval v s = s\<lparr>icmpIntervalValue := v\<rparr>"
| "setField IcmpTimeout v s = s\<lparr>icmpTimeoutValue := v\<rparr>"
| "setField IcmpPacketSize v s = s\<lparr>icmpPacketSizeValue := v\<rparr>"

fun step :: "event \<Rightarrow> ui \<Rightarrow> ui" where
  "step (FieldInput f v) s = setField f v s"
| "step DfClick s = (if icmpDfDisabled s then s else s\<lparr>icmpDfChecked := \<not> icmpDfChecked s\<rparr>)"
| "step (TargetInput v) s = updateIcmpDfAvailability (s\<lparr>targetValue := v\<rparr>)"
| "step (TabClick type r) s = setType type r s"
| "step (EditClick i) s =
     (if i < length (tbody s) then editClick (row_item (tbody s ! i)) s else s)"
| "step CancelClick s = cancelClick s"
| "step (Submit ra rr) s = submitHandler ra rr s"
| "step (RefreshClick rr) s = refreshClick rr s"
| "step (EnabledClick i rp rr) s =
     (if i < length (tbody s) then enabledChangeHandler i rp rr (flipEnabled i s) else s)"
| "step (DeleteClick i confirmed rd rr) s =
     (if i < length (tbody s) then deleteClick confirmed rd rr s else s)"

fun run :: "event list \<Rightarrow> ui \<Rightarrow> ui" where
  "run [] s = s"
| "run (e # es) s = run es (step e s)"

text \<open>
  Loading the script: the module variables are initialised and \<open>setType("http")\<close> runs.
  \<open>dom0\<close> holds what the document's markup gives the elements before that.
\<close>

definition boot :: "item list outcome \<Rightarrow> ui \<Rightarrow> ui" where
  "boot r dom0 = setType (js ''http'') r (dom0\<lparr>currentType := js ''http'', editId := None\<rparr>)"


text \<open>Concrete inputs for the examples: a document with empty controls, and two stored targets.\<close>

definition emptyDocument :: ui where
  "emptyDocument =
     \<lparr>currentType = [], editId = None, statusText = [], statusError = False,
      sdLinkHref = [], hintText = [], icmpConfigHidden = False,
      nameValue = [], targetValue = [], scrapeProfileValue = [],
      icmpCountValue = [], icmpIntervalValue = [], icmpTimeoutValue = [],
      icmpPacketSizeValue = [], icmpDfChecked = False, icmpDfDisabled = False,
      submitText = [], cancelEditHidden = False, tbody = []\<rparr>"

definition ipv6Item :: item where
  "ipv6Item =
     \<lparr>item_id = 7, item_type = js ''icmp'', item_name = None,
      item_target = js ''2001:db8::1'', item_enabled = Some True, scrape_profile = None,
      icmp_count = None, icmp_interval_ms = None, icmp_timeout_ms = None,
      icmp_packet_size = None, icmp_df = Some True\<rparr>"

section \<open>The statistics aggregator of the ICMP prober\<close>

text \<open>
  Modelled from the spec: the ICMP prober (\<open>probe/icmp-prober\<close>) is not among the sources;
  only its README is. \<open>EchoOutcome\<close> is the outcome of one echo as the Echo Transport
  reports it, "EchoOutcome{rtt | timedOut | error}", the round-trip time in seconds.
\<close>

datatype EchoOutcome = Rtt real | TimedOut | SendError

text \<open>
  Modelled from the spec: the ProbeResult of the data model, "success, loss_ratio,
  rtt_mean_seconds, rtt_stddev_seconds, samples (count actually attempted)".
\<close>

record ProbeResult =
  success :: bool
  loss_ratio :: real
  rtt_mean_seconds :: real
  rtt_stddev_seconds :: real
  samples :: nat

text \<open>Modelled from the spec: "successful RTTs", the round-trip times of the echoes that got a reply, in order.\<close>

fun successfulRtts :: "EchoOutcome list \<Rightarrow> real list" where
  "successfulRtts [] = []"
| "successfulRtts (Rtt r # outs) = r # successfulRtts outs"
| "successfulRtts (_ # outs) = successfulRtts outs"

text \<open>Modelled from the spec: "lostCount", the echoes recorded as lost (timeout or send failure).\<close>

fun lostCount :: "EchoOutcome list \<Rightarrow> nat" where
  "lostCount [] = 0"
| "lostCount (Rtt r # outs) = lostCount outs"
| "lostCount (_ # outs) = Suc (lostCount outs)"

text \<open>Modelled from the spec: "average(successful RTTs)"; the average of no value is undefined.\<close>

definition average :: "real list \<Rightarrow> real option" where
  "average xs = (if xs = [] then None else Some (sum_list xs / real (length xs)))"

text \<open>
  Modelled from the spec: "population standard deviation(successful RTTs)", the square
  root of the mean squared deviation from the average; undefined for no value.
\<close>

definition populationStddev :: "real list \<Rightarrow> real option" where
  "populationStddev xs =
     (case average xs of
        None \<Rightarrow> None
      | Some m \<Rightarrow> Some (sqrt (sum_list (map (\<lambda>x. (x - m)\<^sup>2) xs) / real (length xs))))"

text \<open>
  Modelled from the spec: the Statistics Aggregator, "loss_ratio = lostCount / count;
  success = lostCount < count; rtt_mean = average(successful RTTs); rtt_stddev =
  population standard deviation(successful RTTs)", with \<open>count\<close> the number of outcomes.
  With no successful reply the mean is reported as zero, and with fewer than two the
  standard deviation is ("explicitly defined (e.g., 0) when fewer than 2 successful
  replies exist"). The spec gives a ratio for \<open>count \<ge> 1\<close> only: no outcome, no result.
\<close>

definition aggregate :: "EchoOutcome list \<Rightarrow> ProbeResult option" where
  "aggregate outs =
     (let n = length outs; lost = lostCount outs; rtts = successfulRtts outs
      in if n = 0 then None
         else Some \<lparr>success = (lost < n),
                    loss_ratio = real lost / real n,
                    rtt_mean_seconds = (case average rtts of None \<Rightarrow> 0 | Some m \<Rightarrow> m),
                    rtt_stddev_seconds =
                      (if length rtts < 2 then 0
                       else (case populationStddev rtts of None \<Rightarrow> 0 | Some d \<Rightarrow> d)),
                    samples = n\<rparr>)"

section \<open>Properties of the Target Manager page\<close>

lemma js_Nil: "js [] = []"
  by (simp add: js_def)

lemma js_Cons: "js (c # cs) = of_char c # js cs"
  by (simp add: js_def)

lemma includesStr_single: "includesStr t [c] \<longleftrightarrow> c \<in> set t"
  unfolding includesStr_def sublist_def
  by (metis append_Cons append_Nil in_set_conv_decomp)

lemma startsWith_single: "startsWith t [c] \<longleftrightarrow> (case t of [] \<Rightarrow> False | x # _ \<Rightarrow> x = c)"
  by (cases t) (auto simp: startsWith_def)

lemma set_trim_subset: "set (trim s) \<subseteq> set s"
  unfolding trim_def
  by (metis set_dropWhileD set_rev subsetI)

lemma in_set_dropWhile_not: "x \<in> set s \<Longrightarrow> \<not> P x \<Longrightarrow> x \<in> set (dropWhile P s)"
  by (induction s) auto

lemma nonwhite_in_trim: "x \<in> set s \<Longrightarrow> \<not> isWhiteSpace x \<Longrightarrow> x \<in> set (trim s)"
  unfolding trim_def by (simp add: in_set_dropWhile_not)

lemma trim_eq_Nil: "trim s = [] \<longleftrightarrow> dropWhile isWhiteSpace s = []"
proof
  assume "trim s = []"
  then have a: "\<forall>x \<in> set (dropWhile isWhiteSpace s). isWhiteSpace x"
    unfolding trim_def by simp
  show "dropWhile isWhiteSpace s = []"
  proof (rule ccontr)
    assume n: "dropWhile isWhiteSpace s \<noteq> []"
    then have "\<not> isWhiteSpace (hd (dropWhile isWhiteSpace s))" by (rule hd_dropWhile)
    with a n show False by (meson hd_in_set)
  qed
next
  assume "dropWhile isWhiteSpace s = []"
  then show "trim s = []" unfolding trim_def by (simp only: rev.simps dropWhile.simps)
qed

lemma trim_head:
  assumes a: "dropWhile isWhiteSpace s = x # xs"
  shows "\<exists>ys. trim s = x # ys"
proof -
  from a have nx: "\<not> isWhiteSpace x" by (metis hd_dropWhile list.distinct(1) list.sel(1))
  have "\<exists>zs. dropWhile isWhiteSpace (rev xs @ [x]) = zs @ [x]"
  proof (cases "\<forall>y \<in> set (rev xs). isWhiteSpace y")
    case True
    then have "dropWhile isWhiteSpace (rev xs @ [x]) = [] @ [x]"
      using nx by (simp add: dropWhile_append)
    then show ?thesis by blast
  next
    case False
    then have "dropWhile isWhiteSpace (rev xs @ [x]) = dropWhile isWhiteSpace (rev xs) @ [x]"
      by (simp add: dropWhile_append)
    then show ?thesis by blast
  qed
  then obtain zs where "dropWhile isWhiteSpace (rev xs @ [x]) = zs @ [x]" by blast
  then have "trim s = x # rev zs" unfolding trim_def a by simp
  then show ?thesis by blast
qed

lemma colon_not_white: "\<not> isWhiteSpace 0x3A"
  by (simp add: isWhiteSpace_def)

lemma rbr_not_white: "\<not> isWhiteSpace 0x5D"
  by (simp add: isWhiteSpace_def)

lemma looks_trim:
  "looksLikeIpv6 (trim v) \<longleftrightarrow>
     includesStr v (js '':'') \<or>
     (startsWith (dropWhile isWhiteSpace v) (js ''['') \<and> includesStr v (js '']''))"
proof -
  have c: "0x3A \<in> set (trim v) \<longleftrightarrow> 0x3A \<in> set v"
    using set_trim_subset nonwhite_in_trim colon_not_white by blast
  have r: "0x5D \<in> set (trim v) \<longleftrightarrow> 0x5D \<in> set v"
    using set_trim_subset nonwhite_in_trim rbr_not_white by blast
  have h: "startsWith (trim v) [0x5B] \<longleftrightarrow> startsWith (dropWhile isWhiteSpace v) [0x5B]"
  proof (cases "dropWhile isWhiteSpace v")
    case Nil
    then have "trim v = []" by (simp only: trim_eq_Nil)
    with Nil show ?thesis by (simp only:)
  next
    case (Cons x xs)
    from trim_head[OF this] obtain ys where "trim v = x # ys" by blast
    with Cons show ?thesis by (simp add: startsWith_single)
  qed
  show ?thesis
    unfolding looksLikeIpv6_def
    by (simp add: js_Cons js_Nil includesStr_single c r h)
qed



















lemma isWhiteSpace_numeral [simp]:
  "isWhiteSpace (numeral n) \<longleftrightarrow>
     numeral n \<in> {0x0009, 0x000A, 0x000B, 0x000C, 0x000D, 0x0020, 0x00A0, 0x1680,
          0x2028, 0x2029, 0x202F, 0x205F, 0x3000, 0xFEFF :: 16 word}
     \<or> (0x2000 \<le> (numeral n :: 16 word) \<and> (numeral n :: 16 word) \<le> 0x200A)"
  by (simp only: isWhiteSpace_def)


lemma looks_bracket_example: "looksLikeIpv6 (trim (js '' [1]''))"
  by (simp add: looks_trim js_Cons js_Nil includesStr_single startsWith_single)


lemma currentType_update [simp]: "currentType (updateIcmpDfAvailability s) = currentType s"
  by (simp add: updateIcmpDfAvailability_def Let_def)

lemma targetValue_update [simp]: "targetValue (updateIcmpDfAvailability s) = targetValue s"
  by (simp add: updateIcmpDfAvailability_def Let_def)

lemma tbody_update [simp]: "tbody (updateIcmpDfAvailability s) = tbody s"
  by (simp add: updateIcmpDfAvailability_def Let_def)

lemma currentType_setType: "currentType (setType type r s) = type"
  by (cases r) (simp_all add: setType_def Let_def refresh_def setStatus_def resetIcmpInputs_def)

lemma tbody_setType: "tbody (setType type (Inr items) s) = renderRows items"
  by (simp add: setType_def Let_def refresh_def)











text \<open>
  C2, as amended. The detection runs on the trimmed target: the target is classified as
  an IPv6 literal if and only if it contains a colon, or its first character after the
  leading white space is \<open>[\<close> and it contains \<open>]\<close>. On the ICMP tab, after typing a target
  the df checkbox is disabled exactly for such a target, and stays as it was (available)
  for every other one.
\<close>

theorem ipv6_detection_on_trimmed_target:
  assumes "currentType s = js ''icmp''"
  shows "looksLikeIpv6 (trim v) =
           (includesStr v (js '':'') \<or>
            (startsWith (dropWhile isWhiteSpace v) (js ''['') \<and> includesStr v (js '']'')))
         \<and> icmpDfDisabled (step (TargetInput v) s) = looksLikeIpv6 (trim v)
         \<and> icmpDfChecked (step (TargetInput v) s) = (icmpDfChecked s \<and> \<not> looksLikeIpv6 (trim v))"
  using assms by (simp add: looks_trim updateIcmpDfAvailability_def Let_def)

theorem ipv6_detection_on_trimmed_target_witness:
  "currentType (emptyDocument\<lparr>currentType := js ''icmp'', icmpDfChecked := True\<rparr>) = js ''icmp''
   \<and> \<not> looksLikeIpv6 (trim (js ''192.0.2.1''))
   \<and> \<not> icmpDfDisabled (step (TargetInput (js ''192.0.2.1''))
          (emptyDocument\<lparr>currentType := js ''icmp'', icmpDfChecked := True\<rparr>))
   \<and> icmpDfChecked (step (TargetInput (js ''192.0.2.1''))
          (emptyDocument\<lparr>currentType := js ''icmp'', icmpDfChecked := True\<rparr>))"
proof -
  have c: "currentType (emptyDocument\<lparr>currentType := js ''icmp'', icmpDfChecked := True\<rparr>) = js ''icmp''"
    by simp
  have n: "\<not> looksLikeIpv6 (trim (js ''192.0.2.1''))"
    by (simp add: looks_trim js_Cons js_Nil includesStr_single startsWith_single)
  from ipv6_detection_on_trimmed_target [OF c, of "js ''192.0.2.1''"] c n show ?thesis
    by (simp del: step.simps)
qed

text \<open>
  C2 as stated fails: the target \<open>" [1]"\<close> has no colon and does not start with \<open>[\<close>, and
  the page, on the ICMP tab, disables df for it.
\<close>

theorem ipv6_detection_untrimmed_counterexample:
  "targetValue (run [TabClick (js ''icmp'') (Inr []), TargetInput (js '' [1]'')]
       (boot (Inr []) emptyDocument)) = js '' [1]''
   \<and> icmpDfDisabled (run [TabClick (js ''icmp'') (Inr []), TargetInput (js '' [1]'')]
       (boot (Inr []) emptyDocument))
   \<and> \<not> includesStr (js '' [1]'') (js '':'')
   \<and> \<not> startsWith (js '' [1]'') (js ''['')"
proof -
  have "icmpDfDisabled (updateIcmpDfAvailability
          ((setType (js ''icmp'') (Inr []) (boot (Inr []) emptyDocument))\<lparr>targetValue := js '' [1]''\<rparr>))"
    by (simp add: updateIcmpDfAvailability_def currentType_setType Let_def looks_bracket_example)
  then show ?thesis
    by (simp add: js_Cons js_Nil includesStr_single startsWith_single)
qed

text \<open>
  C3. Whatever the other fields of a stored target are: an ICMP parameter that is omitted
  takes its default (count 4, interval 1000 ms, timeout 1000 ms, packet size 56, df
  false), and one that is present is passed through unchanged.
\<close>

theorem effectiveIcmp_defaults:
  "count (effectiveIcmp (it\<lparr>icmp_count := None\<rparr>)) = 4
   \<and> interval_ms (effectiveIcmp (it\<lparr>icmp_interval_ms := None\<rparr>)) = 1000
   \<and> timeout_ms (effectiveIcmp (it\<lparr>icmp_timeout_ms := None\<rparr>)) = 1000
   \<and> packet_size (effectiveIcmp (it\<lparr>icmp_packet_size := None\<rparr>)) = 56
   \<and> df (effectiveIcmp (it\<lparr>icmp_df := None\<rparr>)) = False
   \<and> count (effectiveIcmp (it\<lparr>icmp_count := Some c\<rparr>)) = c
   \<and> interval_ms (effectiveIcmp (it\<lparr>icmp_interval_ms := Some i\<rparr>)) = i
   \<and> timeout_ms (effectiveIcmp (it\<lparr>icmp_timeout_ms := Some t\<rparr>)) = t
   \<and> packet_size (effectiveIcmp (it\<lparr>icmp_packet_size := Some p\<rparr>)) = p
   \<and> df (effectiveIcmp (it\<lparr>icmp_df := Some d\<rparr>)) = d"
  by (simp add: effectiveIcmp_def ICMP_DEFAULTS_def)

text \<open>
  C9. The effective scrape profile of a stored target is one of "1s", "5s", "15s", "60s":
  it is the stored profile, trimmed (null as empty), when that is one of the four, and
  "15s" otherwise; it is what the table shows and what an edit puts into the form.
\<close>

theorem effectiveScrapeProfile_member:
  "effectiveScrapeProfile it \<in> {js ''1s'', js ''5s'', js ''15s'', js ''60s''}
   \<and> effectiveScrapeProfile it =
       (if trim (orEmpty (scrape_profile it)) \<in> {js ''1s'', js ''5s'', js ''15s'', js ''60s''}
        then trim (orEmpty (scrape_profile it)) else js ''15s'')
   \<and> scrapeText (renderRow it) = effectiveScrapeProfile it
   \<and> scrapeProfileValue (editClick it s) = effectiveScrapeProfile it"
proof -
  have m: "p \<in> set SCRAPE_PROFILES \<longleftrightarrow> p \<in> {js ''1s'', js ''5s'', js ''15s'', js ''60s''}" for p
    by (simp only: SCRAPE_PROFILES_def list.simps(15) set_empty2 list.set(1))
  have r: "(case scrape_profile it of None \<Rightarrow> [] | Some v \<Rightarrow> v) = orEmpty (scrape_profile it)"
    by (simp add: orEmpty_def)
  have e: "effectiveScrapeProfile it =
       (if trim (orEmpty (scrape_profile it)) \<in> {js ''1s'', js ''5s'', js ''15s'', js ''60s''}
        then trim (orEmpty (scrape_profile it)) else js ''15s'')"
    unfolding effectiveScrapeProfile_def r by (simp add: Let_def m DEFAULT_SCRAPE_PROFILE_def)
  have "effectiveScrapeProfile it \<in> {js ''1s'', js ''5s'', js ''15s'', js ''60s''}"
    unfolding e by (simp split: if_splits)
  moreover have "scrapeText (renderRow it) = effectiveScrapeProfile it"
    by (simp add: renderRow_def)
  moreover have "scrapeProfileValue (editClick it s) = effectiveScrapeProfile it"
    by (simp add: editClick_def Let_def setStatus_def updateIcmpDfAvailability_def)
  ultimately show ?thesis using e by blast
qed

lemma flipEnabled_twice: "i < length (tbody s) \<Longrightarrow> tbody (flipEnabled i (flipEnabled i s)) = tbody s"
  by (simp add: flipEnabled_def list_update_same_conv)

text \<open>
  C10. When the checkbox of a rendered row is toggled and the PATCH request fails, the
  checkbox ends in the state it had before the click, the rest of the table is untouched,
  and the error's message is shown as an error; the request carried the toggled state.
\<close>

theorem enabled_reverted_on_patch_failure:
  assumes "i < length (tbody s)"
  shows "tbody (step (EnabledClick i (Inl e) rr) s) = tbody s
         \<and> enabledChecked (tbody (step (EnabledClick i (Inl e) rr) s) ! i) = enabledChecked (tbody s ! i)
         \<and> statusText (step (EnabledClick i (Inl e) rr) s) = e
         \<and> statusError (step (EnabledClick i (Inl e) rr) s)
         \<and> enabledPatchRequest i (flipEnabled i s)
           = (PATCH, js ''/api/targets/'' @ String_int (item_id (row_item (tbody s ! i))),
              \<not> enabledChecked (tbody s ! i))"
proof -
  have f: "flipEnabled i (setStatus m k (flipEnabled i s)) = setStatus m k (flipEnabled i (flipEnabled i s))" for m k
    by (simp add: flipEnabled_def setStatus_def)
  have t: "tbody (step (EnabledClick i (Inl e) rr) s) = tbody s"
    using assms by (simp add: enabledChangeHandler_def Let_def f) (simp add: setStatus_def flipEnabled_twice)
  have st: "statusText (step (EnabledClick i (Inl e) rr) s) = e \<and> statusError (step (EnabledClick i (Inl e) rr) s)"
    using assms by (simp add: enabledChangeHandler_def Let_def setStatus_def)
  have rq: "enabledPatchRequest i (flipEnabled i s)
           = (PATCH, js ''/api/targets/'' @ String_int (item_id (row_item (tbody s ! i))),
              \<not> enabledChecked (tbody s ! i))"
    using assms by (simp add: enabledPatchRequest_def flipEnabled_def)
  from t st rq show ?thesis by simp
qed

theorem enabled_reverted_on_patch_failure_witness:
  "(0::nat) < length (tbody (setType (js ''icmp'') (Inr [ipv6Item]) emptyDocument))
   \<and> enabledChecked (tbody (setType (js ''icmp'') (Inr [ipv6Item]) emptyDocument) ! 0)
   \<and> enabledChecked (tbody (step (EnabledClick 0 (Inl (js ''HTTP 500'')) (Inr []))
         (setType (js ''icmp'') (Inr [ipv6Item]) emptyDocument)) ! 0)
   \<and> statusText (step (EnabledClick 0 (Inl (js ''HTTP 500'')) (Inr []))
         (setType (js ''icmp'') (Inr [ipv6Item]) emptyDocument)) = js ''HTTP 500''
   \<and> statusError (step (EnabledClick 0 (Inl (js ''HTTP 500'')) (Inr []))
         (setType (js ''icmp'') (Inr [ipv6Item]) emptyDocument))"
proof -
  have t: "tbody (setType (js ''icmp'') (Inr [ipv6Item]) emptyDocument) = [renderRow ipv6Item]"
    by (simp add: tbody_setType renderRows_def)
  have l: "(0::nat) < length (tbody (setType (js ''icmp'') (Inr [ipv6Item]) emptyDocument))"
    unfolding t by simp
  have e: "enabledChecked (tbody (setType (js ''icmp'') (Inr [ipv6Item]) emptyDocument) ! 0)"
    unfolding t by (simp add: renderRow_def ipv6Item_def Boolean_opt_def)
  from enabled_reverted_on_patch_failure [OF l, of "js ''HTTP 500''" "Inr []"] l e
  show ?thesis by (simp del: step.simps)
qed

section \<open>Properties of the statistics aggregator\<close>

lemma lost_plus_successful: "lostCount outs + length (successfulRtts outs) = length outs"
  by (induction outs rule: lostCount.induct) simp_all

lemma aggregate_Some:
  "outs \<noteq> [] \<Longrightarrow> aggregate outs =
     Some \<lparr>success = (lostCount outs < length outs),
           loss_ratio = real (lostCount outs) / real (length outs),
           rtt_mean_seconds = (case average (successfulRtts outs) of None \<Rightarrow> 0 | Some m \<Rightarrow> m),
           rtt_stddev_seconds =
             (if length (successfulRtts outs) < 2 then 0
              else (case populationStddev (successfulRtts outs) of None \<Rightarrow> 0 | Some d \<Rightarrow> d)),
           samples = length outs\<rparr>"
  by (simp add: aggregate_def Let_def)

lemma squares_sum_nonneg: "0 \<le> sum_list (map (\<lambda>x. (x - m)\<^sup>2) xs)" for m :: real
  by (rule sum_list_nonneg) auto

lemma populationStddev_nonneg: "populationStddev xs = Some d \<Longrightarrow> 0 \<le> d"
  by (auto simp: populationStddev_def squares_sum_nonneg split: option.splits)

text \<open>
  C4. For every run of at least one echo the aggregator yields a result whose loss ratio
  is exactly \<open>lostCount / count\<close>, which equals \<open>(count - successfulReplies) / count\<close>,
  with \<open>count\<close> the number of echoes attempted.
\<close>

theorem loss_ratio_exact:
  assumes "1 \<le> length outs"
  shows "\<exists>res. aggregate outs = Some res
           \<and> samples res = length outs
           \<and> loss_ratio res = real (lostCount outs) / real (length outs)
           \<and> loss_ratio res
               = (real (length outs) - real (length (successfulRtts outs))) / real (length outs)"
proof -
  from assms have ne: "outs \<noteq> []" by auto
  have "real (lostCount outs) = real (length outs) - real (length (successfulRtts outs))"
    using lost_plus_successful [of outs] by linarith
  then show ?thesis by (simp add: aggregate_Some [OF ne])
qed

text \<open>
  C5. For every run of at least one echo, the result's success flag is true if and only
  if its loss ratio is below 1, if and only if fewer echoes were lost than sent, if and
  only if at least one echo received a reply.
\<close>

theorem success_iff_loss_below_one:
  assumes "1 \<le> length outs"
  shows "\<exists>res. aggregate outs = Some res
           \<and> success res = (loss_ratio res < 1)
           \<and> success res = (lostCount outs < length outs)
           \<and> success res = (successfulRtts outs \<noteq> [])"
proof -
  from assms have ne: "outs \<noteq> []" by auto
  then have pos: "0 < real (length outs)" by simp
  have a: "(real (lostCount outs) / real (length outs) < 1) = (lostCount outs < length outs)"
    using pos by (simp add: divide_less_eq)
  have b: "(lostCount outs < length outs) = (successfulRtts outs \<noteq> [])"
    using lost_plus_successful [of outs] by (cases "successfulRtts outs") auto
  show ?thesis by (simp add: aggregate_Some [OF ne] a b)
qed

text \<open>
  C6. For every run of at least one echo there is a result, its RTT standard deviation
  is not negative, and it is 0 when fewer than two replies arrived; a run of a single echo
  has standard deviation 0 and a defined loss ratio.
\<close>

theorem stddev_nonneg_and_defined:
  assumes "1 \<le> length outs"
  shows "\<exists>res. aggregate outs = Some res
           \<and> 0 \<le> rtt_stddev_seconds res
           \<and> (length (successfulRtts outs) < 2 \<longrightarrow> rtt_stddev_seconds res = 0)
           \<and> (length outs = 1 \<longrightarrow> rtt_stddev_seconds res = 0
                 \<and> loss_ratio res = real (lostCount outs))"
proof -
  from assms have ne: "outs \<noteq> []" by auto
  have s: "length (successfulRtts outs) \<le> length outs"
    using lost_plus_successful [of outs] by linarith
  have "0 \<le> (case populationStddev (successfulRtts outs) of None \<Rightarrow> 0 | Some d \<Rightarrow> d)"
    by (auto dest: populationStddev_nonneg split: option.splits)
  with s show ?thesis by (auto simp: aggregate_Some [OF ne])
qed

text \<open>
  C7. A run of at least one echo in which no reply arrived still yields a result: success
  false, loss ratio 1, RTT mean and standard deviation zero.
\<close>

theorem total_loss_yields_result:
  assumes "1 \<le> length outs" and "successfulRtts outs = []"
  shows "aggregate outs =
           Some \<lparr>success = False, loss_ratio = 1, rtt_mean_seconds = 0,
                 rtt_stddev_seconds = 0, samples = length outs\<rparr>"
proof -
  from assms have ne: "outs \<noteq> []" by auto
  have l: "lostCount outs = length outs"
    using lost_plus_successful [of outs] assms(2) by simp
  show ?thesis using ne by (simp add: aggregate_Some [OF ne] l assms(2) average_def)
qed

theorem loss_ratio_exact_witness:
  "(1::nat) \<le> length [Rtt (1/50), TimedOut, Rtt (3/50), SendError]
   \<and> map_option loss_ratio (aggregate [Rtt (1/50), TimedOut, Rtt (3/50), SendError]) = Some (1/2)
   \<and> map_option samples (aggregate [Rtt (1/50), TimedOut, Rtt (3/50), SendError]) = Some 4"
proof -
  have h: "(1::nat) \<le> length [Rtt (1/50), TimedOut, Rtt (3/50), SendError]" by simp
  from loss_ratio_exact [OF h] obtain res
    where "aggregate [Rtt (1/50), TimedOut, Rtt (3/50), SendError] = Some res"
      and "samples res = length [Rtt (1/50), TimedOut, Rtt (3/50), SendError]"
      and "loss_ratio res = (real (length [Rtt (1/50), TimedOut, Rtt (3/50), SendError])
             - real (length (successfulRtts [Rtt (1/50), TimedOut, Rtt (3/50), SendError])))
             / real (length [Rtt (1/50), TimedOut, Rtt (3/50), SendError])"
    by blast
  then show ?thesis by simp
qed

theorem success_iff_loss_below_one_witness:
  "(1::nat) \<le> length [TimedOut, Rtt (1/50)]
   \<and> map_option success (aggregate [TimedOut, Rtt (1/50)]) = Some True
   \<and> map_option loss_ratio (aggregate [TimedOut, Rtt (1/50)]) = Some (1/2)"
proof -
  have h: "(1::nat) \<le> length [TimedOut, Rtt (1/50)]" by simp
  from success_iff_loss_below_one [OF h] obtain res
    where "aggregate [TimedOut, Rtt (1/50)] = Some res"
      and "success res = (lostCount [TimedOut, Rtt (1/50)] < length [TimedOut, Rtt (1/50)])"
      and "success res = (loss_ratio res < 1)"
    by blast
  then show ?thesis by (auto simp: aggregate_def)
qed

theorem stddev_nonneg_and_defined_witness:
  "(1::nat) \<le> length [Rtt (1/50)]
   \<and> length (successfulRtts [Rtt (1/50)]) < 2
   \<and> length [Rtt (1/50)] = 1
   \<and> map_option rtt_stddev_seconds (aggregate [Rtt (1/50)]) = Some 0
   \<and> map_option loss_ratio (aggregate [Rtt (1/50)]) = Some 0"
proof -
  have h: "(1::nat) \<le> length [Rtt (1/50)]" by simp
  from stddev_nonneg_and_defined [OF h] obtain res
    where "aggregate [Rtt (1/50)] = Some res"
      and "length (successfulRtts [Rtt (1/50)]) < 2 \<longrightarrow> rtt_stddev_seconds res = 0"
      and "length [Rtt (1/50)] = 1 \<longrightarrow> rtt_stddev_seconds res = 0
             \<and> loss_ratio res = real (lostCount [Rtt (1/50)])"
    by blast
  then show ?thesis by simp
qed

theorem total_loss_yields_result_witness:
  "(1::nat) \<le> length [TimedOut, SendError]
   \<and> successfulRtts [TimedOut, SendError] = []
   \<and> aggregate [TimedOut, SendError] =
       Some \<lparr>success = False, loss_ratio = 1, rtt_mean_seconds = 0,
             rtt_stddev_seconds = 0, samples = 2\<rparr>"
proof -
  have h: "(1::nat) \<le> length [TimedOut, SendError]" by simp
  have e: "successfulRtts [TimedOut, SendError] = []" by simp
  from total_loss_yields_result [OF h e] h e show ?thesis by simp
qed

end
